theory Spec2Isabelle
  imports Main "HOL-Library.AList"
begin

section \<open>Python values shared by both modules\<close>

text \<open>
  A Python \<open>str\<close> is a sequence of Unicode code points. The byte-order mark U+FEFF does
  not fit into a \<open>char\<close> of HOL, so a text is a list of code points; identifiers
  (volume ids, layer ids, file names) stay \<open>string\<close>s.
\<close>

type_synonym ustr = "nat list"

definition bom :: nat where
  "bom = 65279"

datatype error = TypeError | AttributeError | NotImplementedError | FileNotFoundError

section \<open>openpecha/serializers/serialize.py\<close>

subsection \<open>The state of a Serialize object\<close>

text \<open>
  \<open>chars_toapply\<close> is a \<open>defaultdict(dict)\<close>: every volume id has a dictionary (empty
  until written), from a character coordinate to the pair (strings to add before,
  strings to add after). \<open>base_layers\<close> is a dictionary read in insertion order, so it
  is an association list. \<open>layers\<close> is \<open>None\<close> or a list of layer ids.
\<close>

type_synonym toapply = "int \<rightharpoonup> (ustr list \<times> ustr list)"

record serialize =
  base_layers :: "(string \<times> ustr) list"
  chars_toapply :: "string \<Rightarrow> toapply"
  layers :: "string list option"

subsection \<open>The files of an .opf directory\<close>

text \<open>
  A span of \<open>index.yml\<close>: the volume's path and the slice bounds \<open>span.start\<close> and
  \<open>span.end\<close>, character offsets counted from the start of the file (non-negative).
\<close>

record span =
  vol :: string
  span_start :: nat
  span_end :: nat

datatype yaml = YStr string | YInt int

type_synonym annotation = "(string \<times> yaml) list"

text \<open>
  What the methods read from disk: the works of \<open>index.yml\<close> with their spans, the
  text of \<open>\<langle>vol\<rangle>.txt\<close>, the annotations of \<open>layers/\<langle>vol_id\<rangle>/\<langle>layer_id\<rangle>.yml\<close>, and the
  file names of the directory \<open>layers\<close> in the order \<open>iterdir\<close> yields them.
\<close>

record opf =
  index_yml :: "(string \<times> span list) list"
  vol_txt :: "string \<rightharpoonup> ustr"
  layer_yml :: "string \<Rightarrow> string \<rightharpoonup> annotation list"
  layers_dir :: "string list"

subsection \<open>Construction\<close>

text \<open>\<open>get_text_spans\<close>: the span list of the first work named \<open>text_id\<close>, else \<open>None\<close>.\<close>

fun get_text_spans :: "(string \<times> span list) list \<Rightarrow> string \<Rightarrow> span list option" where
  "get_text_spans [] text_id = None"
| "get_text_spans ((work, sp) # annos) text_id =
     (if work = text_id then Some sp else get_text_spans annos text_id)"

text \<open>\<open>get_base_layer\<close>: the slice \<open>vol_base[start:end]\<close> of the volume's file.\<close>

definition get_base_layer :: "opf \<Rightarrow> span \<Rightarrow> error + ustr" where
  "get_base_layer fs sp =
     (case vol_txt fs (vol sp) of
        None \<Rightarrow> Inl FileNotFoundError
      | Some vol_base \<Rightarrow> Inr (take (span_end sp - span_start sp) (drop (span_start sp) vol_base)))"

text \<open>\<open>span['vol'].split('/')[-1]\<close>: what follows the last slash.\<close>

definition last_component :: "string \<Rightarrow> string" where
  "last_component s = rev (takeWhile (\<lambda>c. c \<noteq> CHR ''/'') (rev s))"

text \<open>
  \<open>get_text_base_layer\<close>: one dictionary entry per span, keyed by the volume's last path
  component; assigning to a key already there replaces its value in place.
\<close>

fun get_text_base_layer_loop ::
  "opf \<Rightarrow> span list \<Rightarrow> (string \<times> ustr) list \<Rightarrow> error + (string \<times> ustr) list" where
  "get_text_base_layer_loop fs [] base = Inr base"
| "get_text_base_layer_loop fs (sp # sps) base =
     (case get_base_layer fs sp of
        Inl e \<Rightarrow> Inl e
      | Inr txt \<Rightarrow> get_text_base_layer_loop fs sps (AList.update (last_component (vol sp)) txt base))"

definition get_text_base_layer :: "opf \<Rightarrow> span list \<Rightarrow> error + (string \<times> ustr) list" where
  "get_text_base_layer fs text_spans = get_text_base_layer_loop fs text_spans []"

text \<open>
  \<open>__init__\<close>: iterating the \<open>None\<close> that \<open>get_text_spans\<close> returns for an unknown work
  raises \<open>TypeError\<close>.
\<close>

definition init :: "opf \<Rightarrow> string \<Rightarrow> string list option \<Rightarrow> error + serialize" where
  "init fs text_id ls =
     (case get_text_spans (index_yml fs) text_id of
        None \<Rightarrow> Inl TypeError
      | Some text_spans \<Rightarrow>
          (case get_text_base_layer fs text_spans of
             Inl e \<Rightarrow> Inl e
           | Inr base \<Rightarrow>
               Inr \<lparr>base_layers = base, chars_toapply = (\<lambda>vol_id. Map.empty), layers = ls\<rparr>))"

subsection \<open>add_chars\<close>

definition add_chars :: "string \<Rightarrow> int \<Rightarrow> bool \<Rightarrow> ustr \<Rightarrow> serialize \<Rightarrow> serialize" where
  "add_chars vol_id cc frombefore charstoadd self =
     (let d = chars_toapply self vol_id;
          entry = (case d cc of None \<Rightarrow> ([], []) | Some e \<Rightarrow> e);
          entry' = (if frombefore then (charstoadd # fst entry, snd entry)
                    else (fst entry, snd entry @ [charstoadd]))
      in self\<lparr>chars_toapply := (chars_toapply self)(vol_id := d(cc \<mapsto> entry'))\<rparr>)"

subsection \<open>get_result\<close>

text \<open>
  The inner loop over the characters of one volume: \<open>i\<close> counts the characters that are
  not U+FEFF, \<open>res\<close> is the string built so far.
\<close>

fun render_chars :: "toapply \<Rightarrow> ustr \<Rightarrow> int \<Rightarrow> ustr \<Rightarrow> ustr" where
  "render_chars d [] i res = res"
| "render_chars d (c # cs) i res =
     (if c = bom then render_chars d cs i res
      else (case d i of
              Some apply \<Rightarrow>
                render_chars d cs (i + 1)
                  (foldl (@) (foldl (@) res (fst apply) @ [c]) (snd apply))
            | None \<Rightarrow> render_chars d cs (i + 1) (res @ [c])))"

text \<open>
  The outer loop over \<open>base_layers.items()\<close>. The \<open>return res\<close> stands inside the loop
  body, so the first iteration returns; with no volume at all the function falls off its
  end and returns \<open>None\<close>.
\<close>

fun get_result_loop :: "(string \<Rightarrow> toapply) \<Rightarrow> (string \<times> ustr) list \<Rightarrow> ustr \<Rightarrow> ustr option" where
  "get_result_loop ct [] res = None"
| "get_result_loop ct ((vol_id, base_layer) # items) res =
     Some (render_chars (ct vol_id) base_layer 0 res)"

definition get_result :: "serialize \<Rightarrow> ustr option" where
  "get_result self = get_result_loop (chars_toapply self) (base_layers self) []"

subsection \<open>Applying layers\<close>

text \<open>
  \<open>apply_annotation\<close> of the base class raises; a subclass supplies its own, so the loops
  below take the method as the parameter \<open>hook\<close>.
\<close>

definition apply_annotation :: "string \<Rightarrow> annotation \<Rightarrow> serialize \<Rightarrow> error + serialize" where
  "apply_annotation vol_id a self = Inl NotImplementedError"

text \<open>A \<open>for\<close> loop whose body may raise: the first exception ends it.\<close>

fun for_each :: "('a \<Rightarrow> 's \<Rightarrow> error + 's) \<Rightarrow> 'a list \<Rightarrow> 's \<Rightarrow> error + 's" where
  "for_each body [] s = Inr s"
| "for_each body (x # xs) s =
     (case body x s of Inl e \<Rightarrow> Inl e | Inr s' \<Rightarrow> for_each body xs s')"

definition apply_layer ::
  "(string \<Rightarrow> annotation \<Rightarrow> serialize \<Rightarrow> error + serialize) \<Rightarrow> opf \<Rightarrow>
   string \<Rightarrow> string \<Rightarrow> serialize \<Rightarrow> error + serialize" where
  "apply_layer hook fs vol_id layer_id self =
     (case layer_yml fs vol_id layer_id of
        None \<Rightarrow> Inl FileNotFoundError
      | Some annotations \<Rightarrow>
          for_each (\<lambda>a. hook vol_id (AList.update ''type'' (YStr layer_id) a)) annotations self)"

text \<open>
  \<open>Path.suffix\<close> and \<open>Path.stem\<close> of pathlib: with \<open>i\<close> the index of the last dot of the
  name, the suffix is \<open>name[i:]\<close> and the stem \<open>name[:i]\<close> when \<open>0 < i < len(name) - 1\<close>;
  otherwise the suffix is empty and the stem is the name.
\<close>

definition after_last_dot :: "string \<Rightarrow> string" where
  "after_last_dot name = rev (takeWhile (\<lambda>c. c \<noteq> CHR ''.'') (rev name))"

definition has_suffix :: "string \<Rightarrow> bool" where
  "has_suffix name =
     (CHR ''.'' \<in> set name \<and> 0 < length (after_last_dot name)
      \<and> Suc (length (after_last_dot name)) < length name)"

definition suffix :: "string \<Rightarrow> string" where
  "suffix name =
     (if has_suffix name
      then drop (length name - Suc (length (after_last_dot name))) name else [])"

definition stem :: "string \<Rightarrow> string" where
  "stem name =
     (if has_suffix name
      then take (length name - Suc (length (after_last_dot name))) name else name)"

definition get_all_layer :: "opf \<Rightarrow> string list" where
  "get_all_layer fs = map stem (filter (\<lambda>layer. suffix layer = ''.yml'') (layers_dir fs))"

text \<open>
  \<open>apply_layers\<close>. \<open>if self.layers\<close> is false for \<open>None\<close> and for the empty list. In the
  second branch the call \<open>self.apply_layer(layer_id)\<close> leaves out an argument of
  \<open>apply_layer(self, vol_id, layer_id)\<close>: Python raises \<open>TypeError\<close> at the call.
\<close>

definition apply_layers ::
  "(string \<Rightarrow> annotation \<Rightarrow> serialize \<Rightarrow> error + serialize) \<Rightarrow> opf \<Rightarrow>
   serialize \<Rightarrow> error + serialize" where
  "apply_layers hook fs self =
     (let all_found =
            for_each
              (\<lambda>vol_id. for_each (\<lambda>layer_id s. Inl TypeError) (get_all_layer fs))
              (map fst (base_layers self)) self
      in case layers self of
           None \<Rightarrow> all_found
         | Some ls \<Rightarrow>
             if ls = [] then all_found
             else for_each
                    (\<lambda>vol_id. for_each (\<lambda>layer_id. apply_layer hook fs vol_id layer_id) ls)
                    (map fst (base_layers self)) self)"

section \<open>openpoti/blupdate.py\<close>

text \<open>
  A \<open>Blupdate\<close> object holds the old and the new base layer and \<open>contextlen\<close>. Its
  attribute \<open>cctv\<close> is set to the function \<open>compute_cctv\<close> itself, which is never
  called, and no method reads the attribute.
\<close>

record blupdate =
  srcbl :: string
  dstbl :: string
  contextlen :: int

definition Blupdate :: "string \<Rightarrow> string \<Rightarrow> blupdate" where
  "Blupdate src dst = \<lparr>srcbl = src, dstbl = dst, contextlen = 16\<rparr>"

text \<open>
  The bodies of \<open>compute_cctv\<close>, \<open>get_cctv_for_coord\<close>, \<open>get_context\<close> and \<open>dmp_find\<close>
  are a docstring and \<open>pass\<close>: each returns Python's \<open>None\<close>, here the \<open>None\<close> of an
  option type over the value its docstring announces.
\<close>

definition compute_cctv :: "blupdate \<Rightarrow> (int \<times> int \<times> int) list option" where
  "compute_cctv self = None"

definition get_cctv_for_coord :: "blupdate \<Rightarrow> int \<Rightarrow> (int \<times> bool) option" where
  "get_cctv_for_coord self srcblcoord = None"

definition get_context :: "blupdate \<Rightarrow> int \<Rightarrow> (string \<times> string) option" where
  "get_context self srcblcoord = None"

definition dmp_find :: "blupdate \<Rightarrow> (string \<times> string) option \<Rightarrow> int \<Rightarrow> int option" where
  "dmp_find self context dstcoordestimate = None"

definition get_updated_with_dmp :: "blupdate \<Rightarrow> int \<Rightarrow> int \<Rightarrow> int option" where
  "get_updated_with_dmp self srcblcoord cct =
     (let context = get_context self srcblcoord;
          dstcoordestimate = srcblcoord + cct
      in dmp_find self context dstcoordestimate)"

text \<open>
  \<open>get_updated_coord\<close>, split at the value \<open>cctvforcoord\<close> of the lookup. Subscripting
  \<open>None\<close> raises \<open>TypeError\<close>. The class has no attribute \<open>getupdatedwithdmp\<close> (the
  method is named \<open>get_updated_with_dmp\<close>), so the \<open>else\<close> branch raises
  \<open>AttributeError\<close>.
\<close>

definition updated_from :: "int \<Rightarrow> (int \<times> bool) option \<Rightarrow> error + int" where
  "updated_from srcblcoord cctvforcoord =
     (case cctvforcoord of
        None \<Rightarrow> Inl TypeError
      | Some p \<Rightarrow> if snd p then Inr (srcblcoord + fst p) else Inl AttributeError)"

definition get_updated_coord :: "blupdate \<Rightarrow> int \<Rightarrow> error + int" where
  "get_updated_coord self srcblcoord =
     updated_from srcblcoord (get_cctv_for_coord self srcblcoord)"

section \<open>Vocabulary of the statements\<close>

text \<open>A sequence of \<open>add_chars\<close> calls, each (volume, coordinate, frombefore, text).\<close>

fun add_chars_calls :: "(string \<times> int \<times> bool \<times> ustr) list \<Rightarrow> serialize \<Rightarrow> serialize" where
  "add_chars_calls [] self = self"
| "add_chars_calls ((vol_id, cc, frombefore, charstoadd) # calls) self =
     add_chars_calls calls (add_chars vol_id cc frombefore charstoadd self)"

text \<open>The text with every U+FEFF taken out, over which the coordinates count.\<close>

definition without_bom :: "ustr \<Rightarrow> ustr" where
  "without_bom txt = filter (\<lambda>c. c \<noteq> bom) txt"

text \<open>
  What the spec calls BOM stripping (sections 3 and 6): a single leading byte-order mark
  is removed if present.
\<close>

definition spec_strip_leading_bom :: "ustr \<Rightarrow> ustr" where
  "spec_strip_leading_bom txt = (case txt of [] \<Rightarrow> [] | c # cs \<Rightarrow> if c = bom then cs else txt)"

text \<open>What is written for the character \<open>c\<close> at coordinate \<open>i\<close> under the dictionary \<open>d\<close>.\<close>

definition emitted_at :: "toapply \<Rightarrow> int \<Rightarrow> nat \<Rightarrow> ustr" where
  "emitted_at d i c =
     (case d i of None \<Rightarrow> [c] | Some apply \<Rightarrow> concat (fst apply) @ [c] @ concat (snd apply))"


section \<open>Example objects\<close>

definition two_volumes :: opf where
  "two_volumes =
     \<lparr>index_yml = [(''W1'', [\<lparr>vol = ''base/v001'', span_start = 0, span_end = 2\<rparr>,
                             \<lparr>vol = ''base/v002'', span_start = 0, span_end = 2\<rparr>])],
      vol_txt = [''base/v001'' \<mapsto> [97, 98], ''base/v002'' \<mapsto> [99, 100]],
      layer_yml = (\<lambda>vol_id. Map.empty),
      layers_dir = [''title.yml'', ''author.yml'', ''README'']\<rparr>"

definition two_volumes_object :: serialize where
  "two_volumes_object =
     \<lparr>base_layers = [(''v001'', [97, 98]), (''v002'', [99, 100])],
      chars_toapply = (\<lambda>vol_id. Map.empty), layers = None\<rparr>"

definition one_volume :: "ustr \<Rightarrow> serialize" where
  "one_volume txt =
     \<lparr>base_layers = [(''v001'', txt)], chars_toapply = (\<lambda>vol_id. Map.empty), layers = None\<rparr>"

definition worked :: blupdate where
  "worked = Blupdate ''abefghijkl'' ''abcdefgkl''"

section \<open>How get_result renders one volume\<close>

lemma foldl_append_concat: "foldl (@) res xs = res @ concat xs"
  by (induction xs arbitrary: res) auto

lemma render_chars_emitted:
  "c \<noteq> bom \<Longrightarrow> render_chars d (c # cs) i res = render_chars d cs (i + 1) (res @ emitted_at d i c)"
  by (simp add: emitted_at_def foldl_append_concat split: option.split)

lemma render_chars_res: "render_chars d cs i res = res @ render_chars d cs i []"
proof (induction cs arbitrary: i res)
  case Nil
  show ?case by simp
next
  case (Cons c cs)
  show ?case
  proof (cases "c = bom")
    case True
    then show ?thesis using Cons.IH [of i res] by simp
  next
    case False
    have "render_chars d (c # cs) i res = (res @ emitted_at d i c) @ render_chars d cs (i + 1) []"
      using Cons.IH [of "i + 1" "res @ emitted_at d i c"]
      by (simp only: render_chars_emitted [OF False])
    moreover have "render_chars d (c # cs) i [] = emitted_at d i c @ render_chars d cs (i + 1) []"
      using Cons.IH [of "i + 1" "emitted_at d i c"]
      by (simp only: render_chars_emitted [OF False] append_Nil)
    ultimately show ?thesis by simp
  qed
qed

lemma render_chars_append:
  "render_chars d (xs @ ys) i res =
     render_chars d ys (i + int (length (without_bom xs))) (render_chars d xs i res)"
  by (induction xs arbitrary: i res) (auto simp: without_bom_def add.assoc split: option.split)


lemma render_chars_frame:
  "(\<And>j. i \<le> j \<Longrightarrow> j < i + int (length (without_bom cs)) \<Longrightarrow> d j = d' j) \<Longrightarrow>
   render_chars d cs i res = render_chars d' cs i res"
proof (induction cs arbitrary: i res)
  case Nil
  show ?case by simp
next
  case (Cons c cs)
  show ?case
  proof (cases "c = bom")
    case True
    then show ?thesis using Cons.IH [of i res] Cons.prems by (simp add: without_bom_def)
  next
    case False
    have here: "d i = d' i" using Cons.prems [of i] False by (simp add: without_bom_def)
    have "render_chars d cs (i + 1) r = render_chars d' cs (i + 1) r" for r
      using Cons.prems False by (intro Cons.IH) (simp_all add: without_bom_def)
    then show ?thesis using False here by (simp split: option.split)
  qed
qed


lemma render_chars_empty: "render_chars Map.empty cs i res = res @ without_bom cs"
  by (induction cs arbitrary: i res) (simp_all add: without_bom_def)

lemma render_chars_single:
  "c \<noteq> bom \<Longrightarrow> render_chars d [c] i res = res @ emitted_at d i c"
  by (simp add: emitted_at_def foldl_append_concat split: option.split)


lemma without_bom_idem: "without_bom (without_bom cs) = without_bom cs"
  by (simp add: without_bom_def)


lemma without_bom_drop: "without_bom (drop n (without_bom cs)) = drop n (without_bom cs)"
  unfolding without_bom_def by (rule filter_True) (auto dest: in_set_dropD)


lemma chars_toapply_add_chars:
  "chars_toapply (add_chars v cc fb s self) v =
     (chars_toapply self v)(cc \<mapsto>
        (case chars_toapply self v cc of
           None \<Rightarrow> if fb then ([s], []) else ([], [s])
         | Some e \<Rightarrow> if fb then (s # fst e, snd e) else (fst e, snd e @ [s])))"
  by (simp add: add_chars_def Let_def split: option.split)

lemma chars_toapply_add_chars_other:
  "v' \<noteq> v \<Longrightarrow> chars_toapply (add_chars v cc fb s self) v' = chars_toapply self v'"
  by (simp add: add_chars_def Let_def)

lemma base_layers_add_chars: "base_layers (add_chars v cc fb s self) = base_layers self"
  by (simp add: add_chars_def Let_def)



lemma get_result_first:
  "base_layers self = (v, base) # items \<Longrightarrow>
   get_result self = Some (render_chars (chars_toapply self v) base 0 [])"
  by (simp add: get_result_def)

section \<open>Rendering works of several volumes\<close>

lemma init_two_volumes: "init two_volumes ''W1'' None = Inr two_volumes_object"
  by (simp add: init_def two_volumes_def two_volumes_object_def get_text_base_layer_def
      get_base_layer_def last_component_def)

text \<open>
  C1 (fails on the code). The work \<open>W1\<close> has the two volumes \<open>ab\<close> and \<open>cd\<close> and no
  insertion is recorded: the concatenation of the volumes' renderings is \<open>abcd\<close>, and
  \<open>get_result\<close> returns \<open>ab\<close>, the rendering of the first volume alone.
\<close>

theorem get_result_stops_after_first_volume:
  "init two_volumes ''W1'' None = Inr two_volumes_object
   \<and> get_result two_volumes_object = Some [97, 98]
   \<and> get_result two_volumes_object \<noteq> Some [97, 98, 99, 100]"
  by (simp add: init_two_volumes) (simp add: two_volumes_object_def get_result_def bom_def)

section \<open>Order of the insertions at one coordinate\<close>




section \<open>Rendering without layers\<close>

text \<open>
  C6 (as amended). With no insertion recorded, \<open>get_result\<close> on a work of one volume
  returns the text \<open>T\<close> with every U+FEFF taken out, wherever it stands. When \<open>T\<close> has no
  U+FEFF after its first character, this is \<open>T\<close> with a single leading byte-order mark
  stripped, as the spec defines BOM stripping.
\<close>

theorem get_result_no_layers:
  "get_result \<lparr>base_layers = [(vol_id, T)], chars_toapply = (\<lambda>v. Map.empty), layers = ls\<rparr>
     = Some (without_bom T)
   \<and> (bom \<notin> set (tl T) \<longrightarrow>
        get_result \<lparr>base_layers = [(vol_id, T)], chars_toapply = (\<lambda>v. Map.empty), layers = ls\<rparr>
          = Some (spec_strip_leading_bom T))"
proof -
  have "without_bom T = spec_strip_leading_bom T" if "bom \<notin> set (tl T)"
  proof (cases T)
    case Nil
    then show ?thesis by (simp add: without_bom_def spec_strip_leading_bom_def)
  next
    case (Cons c cs)
    with that have "filter (\<lambda>x. x \<noteq> bom) cs = cs" by (intro filter_True) auto
    with Cons show ?thesis by (simp add: without_bom_def spec_strip_leading_bom_def)
  qed
  then show ?thesis by (simp add: get_result_def render_chars_empty)
qed

theorem get_result_no_layers_witness:
  "bom \<notin> set (tl [bom, 97, 98])
   \<and> get_result (one_volume [bom, 97, 98]) = Some [97, 98]
   \<and> spec_strip_leading_bom [bom, 97, 98] = [97, 98]"
  using get_result_no_layers [of "''v001''" "[bom, 97, 98]" None]
  by (simp add: one_volume_def bom_def without_bom_def spec_strip_leading_bom_def)

text \<open>
  C6 as stated fails on a text with U+FEFF inside: for \<open>a\<close>, U+FEFF, \<open>b\<close> the identity law
  with a leading byte-order mark stripped gives the text itself, and \<open>get_result\<close> returns
  \<open>ab\<close>.
\<close>

theorem interior_bom_counterexample:
  "get_result (one_volume [97, bom, 98]) = Some [97, 98]
   \<and> get_result (one_volume [97, bom, 98]) \<noteq> Some (spec_strip_leading_bom [97, bom, 98])"
  by (simp add: one_volume_def get_result_def spec_strip_leading_bom_def bom_def)

section \<open>Insertions beyond the text\<close>

lemma render_chars_upd_outside:
  "cc < i \<or> i + int (length (without_bom cs)) \<le> cc \<Longrightarrow>
   render_chars (d(cc \<mapsto> e)) cs i res = render_chars d cs i res"
  by (rule render_chars_frame) auto

text \<open>
  C7 (as amended). An insertion recorded at a coordinate greater than or equal to the
  number of characters (other than U+FEFF) of its volume is never read: \<open>get_result\<close>
  raises nothing and returns what it returns without that insertion.
\<close>

theorem insertion_beyond_text_is_dropped:
  assumes "map_of (base_layers self) vol_id = Some base"
    and "int (length (without_bom base)) \<le> cc"
  shows "get_result (add_chars vol_id cc frombefore charstoadd self) = get_result self"
proof (cases "base_layers self")
  case Nil
  with assms(1) show ?thesis by simp
next
  case (Cons p items)
  obtain v b where p: "p = (v, b)" by (cases p)
  let ?self' = "add_chars vol_id cc frombefore charstoadd self"
  have first: "base_layers ?self' = (v, b) # items"
    using Cons p by (simp add: base_layers_add_chars)
  have "render_chars (chars_toapply ?self' v) b 0 [] = render_chars (chars_toapply self v) b 0 []"
  proof (cases "v = vol_id")
    case True
    with assms(1) Cons p have "b = base" by simp
    with assms(2) True show ?thesis
      by (simp add: chars_toapply_add_chars render_chars_upd_outside)
  next
    case False
    then show ?thesis by (simp add: chars_toapply_add_chars_other)
  qed
  moreover have "get_result ?self' = Some (render_chars (chars_toapply ?self' v) b 0 [])"
    by (rule get_result_first [OF first])
  moreover have "get_result self = Some (render_chars (chars_toapply self v) b 0 [])"
    using Cons p by (intro get_result_first) simp
  ultimately show ?thesis by simp
qed

theorem insertion_beyond_text_witness:
  "map_of (base_layers (one_volume [97, 98])) ''v001'' = Some [97, 98]
   \<and> int (length (without_bom [97, 98])) \<le> 5
   \<and> get_result (add_chars ''v001'' 5 True [60] (one_volume [97, 98]))
       = get_result (one_volume [97, 98])"
  using insertion_beyond_text_is_dropped [of "one_volume [97, 98]" "''v001''" "[97, 98]" 5 True "[60]"]
  by (simp add: one_volume_def without_bom_def bom_def)

text \<open>
  C7 as stated fails: an insertion at coordinate 5 of the two-character volume \<open>ab\<close> is
  dropped without any error, and \<open>get_result\<close> returns \<open>ab\<close>.
\<close>

theorem insertion_beyond_text_counterexample:
  "get_result (add_chars ''v001'' 5 True [60] (one_volume [97, 98])) = Some [97, 98]
   \<and> get_result (one_volume [97, 98]) = Some [97, 98]"
  by (simp add: one_volume_def add_chars_def Let_def get_result_def bom_def)

section \<open>Keys of chars_toapply\<close>

lemma add_chars_entry:
  "chars_toapply (add_chars v cc fb s self) v' cc' = Some (b, a) \<Longrightarrow>
   (v' = v \<and> cc' = cc \<and> 1 \<le> length b + length a)
   \<or> chars_toapply self v' cc' = Some (b, a)"
  by (auto simp: add_chars_def Let_def split: if_splits option.splits)

lemma add_chars_calls_entry:
  "chars_toapply (add_chars_calls calls self) v cc = Some (b, a) \<Longrightarrow>
   (1 \<le> length b + length a \<and> (\<exists>fb s. (v, cc, fb, s) \<in> set calls))
   \<or> chars_toapply self v cc = Some (b, a)"
proof (induction calls arbitrary: self)
  case Nil
  then show ?case by simp
next
  case (Cons call calls)
  obtain v0 cc0 fb0 s0 where call: "call = (v0, cc0, fb0, s0)" by (cases call)
  from Cons.prems call
  have "chars_toapply (add_chars_calls calls (add_chars v0 cc0 fb0 s0 self)) v cc = Some (b, a)"
    by simp
  from Cons.IH [OF this] show ?case
  proof
    assume "1 \<le> length b + length a \<and> (\<exists>fb s. (v, cc, fb, s) \<in> set calls)"
    then show ?thesis by auto
  next
    assume "chars_toapply (add_chars v0 cc0 fb0 s0 self) v cc = Some (b, a)"
    from add_chars_entry [OF this] show ?thesis using call by auto
  qed
qed

text \<open>
  C9. On an object whose \<open>chars_toapply\<close> is empty, as \<open>__init__\<close> leaves it, after any
  sequence of \<open>add_chars\<close> calls: every (volume, coordinate) key present maps to a pair
  of lists with at least one string between them, and one of the calls was made at that
  volume and coordinate.
\<close>

theorem chars_toapply_keys_have_insertions:
  assumes "chars_toapply self = (\<lambda>vol_id. Map.empty)"
    and "chars_toapply (add_chars_calls calls self) vol_id cc = Some (before, after)"
  shows "1 \<le> length before + length after
         \<and> (\<exists>frombefore charstoadd. (vol_id, cc, frombefore, charstoadd) \<in> set calls)"
  using add_chars_calls_entry [OF assms(2)] assms(1) by simp

theorem chars_toapply_keys_witness:
  "chars_toapply (one_volume [97, 98]) = (\<lambda>vol_id. Map.empty)
   \<and> chars_toapply
        (add_chars_calls [(''v001'', 1, True, [60]), (''v001'', 1, False, [62])] (one_volume [97, 98]))
        ''v001'' 1 = Some ([[60]], [[62]])
   \<and> 1 \<le> length [[60::nat]] + length [[62::nat]]
   \<and> (\<exists>frombefore charstoadd. (''v001'', 1, frombefore, charstoadd)
         \<in> set [(''v001'', 1::int, True, [60::nat]), (''v001'', 1, False, [62])])"
proof -
  have fresh: "chars_toapply (one_volume [97, 98]) = (\<lambda>vol_id. Map.empty)"
    by (simp add: one_volume_def)
  have entry: "chars_toapply
        (add_chars_calls [(''v001'', 1, True, [60]), (''v001'', 1, False, [62])] (one_volume [97, 98]))
        ''v001'' 1 = Some ([[60]], [[62]])"
    by (simp add: one_volume_def add_chars_def Let_def)
  from chars_toapply_keys_have_insertions [OF fresh entry] fresh entry
  show ?thesis by simp
qed

section \<open>U+FEFF in the base layer\<close>

lemma enumerate_Suc: "enumerate (Suc k) xs = map (\<lambda>(j, x). (Suc j, x)) (enumerate k xs)"
  by (induction xs arbitrary: k) simp_all

lemma render_chars_enumerate:
  "render_chars d cs i res =
     res @ concat (map (\<lambda>(j, c). emitted_at d (i + int j) c) (enumerate 0 (without_bom cs)))"
proof (induction cs arbitrary: i res)
  case Nil
  show ?case by (simp add: without_bom_def)
next
  case (Cons c cs)
  show ?case
  proof (cases "c = bom")
    case True
    then show ?thesis using Cons.IH [of i res] by (simp add: without_bom_def)
  next
    case False
    have reindex: "map (\<lambda>(j, c). emitted_at d (i + int j) c) (enumerate (Suc 0) zs)
                 = map (\<lambda>(j, c). emitted_at d (i + 1 + int j) c) (enumerate 0 zs)" for zs
      by (simp add: enumerate_Suc case_prod_unfold add.assoc)
    have "without_bom (c # cs) = c # without_bom cs"
      using False by (simp add: without_bom_def)
    then show ?thesis
      using Cons.IH [of "i + 1" "res @ emitted_at d i c"]
      by (simp only: render_chars_emitted [OF False] enumerate_simps list.map concat.simps reindex)
         simp
  qed
qed

lemma length_without_bom:
  "int (length (without_bom xs)) = int (length xs) - int (count_list xs bom)"
  by (induction xs) (simp_all add: without_bom_def)

text \<open>
  C10. \<open>get_result\<close> writes, for the volume it renders, the characters of the base layer
  other than U+FEFF, each with the insertions recorded at its index among those
  characters: every U+FEFF is left out of the output and of the numbering, wherever it
  stands. A character other than U+FEFF that follows the characters \<open>xs\<close> is looked up at
  \<open>length xs\<close> minus the number of U+FEFF in \<open>xs\<close>; a U+FEFF at that place changes
  nothing.
\<close>

theorem get_result_skips_every_bom:
  "get_result \<lparr>base_layers = (vol_id, base_layer) # items, chars_toapply = ct, layers = ls\<rparr>
     = Some (concat (map (\<lambda>(j, c). emitted_at (ct vol_id) (int j) c)
                      (enumerate 0 (without_bom base_layer))))
   \<and> get_result \<lparr>base_layers = (vol_id, xs @ c # ys) # items, chars_toapply = ct, layers = ls\<rparr>
     = (if c = bom
        then get_result \<lparr>base_layers = (vol_id, xs @ ys) # items, chars_toapply = ct, layers = ls\<rparr>
        else Some (render_chars (ct vol_id) xs 0 []
                   @ emitted_at (ct vol_id) (int (length xs) - int (count_list xs bom)) c
                   @ render_chars (ct vol_id) ys (int (length xs) - int (count_list xs bom) + 1) []))"
proof -
  let ?d = "ct vol_id" and ?k = "int (length xs) - int (count_list xs bom)"
  have all: "render_chars ?d base_layer 0 [] =
      concat (map (\<lambda>(j, c). emitted_at ?d (int j) c) (enumerate 0 (without_bom base_layer)))"
    using render_chars_enumerate [of ?d base_layer 0 "[]"] by simp
  have skip: "render_chars ?d (xs @ c # ys) 0 [] = render_chars ?d (xs @ ys) 0 []" if "c = bom"
    using that by (simp add: render_chars_append)
  have keep: "render_chars ?d (xs @ c # ys) 0 [] =
      render_chars ?d xs 0 [] @ emitted_at ?d ?k c @ render_chars ?d ys (?k + 1) []" if "c \<noteq> bom"
  proof -
    have "render_chars ?d (xs @ c # ys) 0 [] =
            render_chars ?d ys (?k + 1) (render_chars ?d xs 0 [] @ emitted_at ?d ?k c)"
      by (simp only: render_chars_append render_chars_emitted [OF that] length_without_bom) simp
    then show ?thesis using render_chars_res [of ?d ys "?k + 1"] by (metis append_assoc)
  qed
  show ?thesis
    using all skip keep by (simp add: get_result_def)
qed

section \<open>Layers applied when none is listed\<close>

text \<open>
  With \<open>layers\<close> unset (or empty) \<open>apply_layers\<close> applies nothing: it returns normally only
  when there is no volume or no \<open>.yml\<close> file in the directory \<open>layers\<close>, and raises
  \<open>TypeError\<close> at its first call of \<open>apply_layer\<close> otherwise.
\<close>

lemma for_each_raise:
  "xs \<noteq> [] \<Longrightarrow> for_each (\<lambda>x s. Inl e) xs s = Inl e"
  by (cases xs) simp_all

lemma for_each_no_items: "for_each body [] = Inr"
  by (rule ext) simp

lemma for_each_nothing: "for_each (\<lambda>x s. Inr s) xs s = Inr s"
  by (induction xs) simp_all

lemma apply_layers_unspecified:
  "layers self = None \<or> layers self = Some [] \<Longrightarrow>
   apply_layers hook fs self =
     (if base_layers self = [] \<or> get_all_layer fs = [] then Inr self else Inl TypeError)"
proof -
  assume unspecified: "layers self = None \<or> layers self = Some []"
  let ?vols = "map fst (base_layers self)"
  have "for_each (\<lambda>vol_id. for_each (\<lambda>layer_id s. Inl TypeError) (get_all_layer fs)) ?vols self
        = (if base_layers self = [] \<or> get_all_layer fs = [] then Inr self else Inl TypeError)"
  proof (cases "get_all_layer fs = []")
    case True
    then show ?thesis by (simp add: for_each_no_items for_each_nothing)
  next
    case False
    then show ?thesis by (cases "base_layers self") (simp_all add: for_each_raise)
  qed
  with unspecified show ?thesis by (auto simp: apply_layers_def)
qed

lemma get_all_layer_two_volumes: "get_all_layer two_volumes = [''title'', ''author'']"
  by (simp add: get_all_layer_def two_volumes_def suffix_def stem_def has_suffix_def
      after_last_dot_def)

text \<open>
  C8 (fails on the code). The work \<open>W1\<close> is built with \<open>layers = None\<close>; the directory
  \<open>layers\<close> lists \<open>title.yml\<close>, \<open>author.yml\<close> and \<open>README\<close>. \<open>get_all_layer\<close> gives the
  layer ids in the directory's order, \<open>title\<close> before \<open>author\<close>, and \<open>apply_layers\<close> raises
  \<open>TypeError\<close> whatever \<open>apply_annotation\<close> the subclass supplies: no layer is applied.
\<close>

theorem apply_layers_unspecified_raises:
  "init two_volumes ''W1'' None = Inr two_volumes_object
   \<and> get_all_layer two_volumes = [''title'', ''author'']
   \<and> apply_layers hook two_volumes two_volumes_object = Inl TypeError"
  using apply_layers_unspecified [of two_volumes_object hook two_volumes]
  by (simp add: init_two_volumes get_all_layer_two_volumes) (simp add: two_volumes_object_def)

section \<open>Translating coordinates\<close>

text \<open>
  C3 (fails on the code). \<open>get_updated_coord\<close> raises \<open>TypeError\<close> at every coordinate,
  since \<open>get_cctv_for_coord\<close> returns \<open>None\<close>. Given a lookup value, its remaining
  statements return \<open>srcblcoord + cct\<close> when the value is certain and raise
  \<open>AttributeError\<close> when it is not: the fuzzy helper is never called. The helper
  \<open>get_updated_with_dmp\<close> itself returns \<open>None\<close>, not the sentinel -1.
\<close>

theorem get_updated_coord_raises:
  "get_updated_coord self srcblcoord = Inl TypeError
   \<and> updated_from srcblcoord (Some (cct, True)) = Inr (srcblcoord + cct)
   \<and> updated_from srcblcoord (Some (cct, False)) = Inl AttributeError
   \<and> get_updated_with_dmp self srcblcoord cct = None"
  by (simp add: get_updated_coord_def get_cctv_for_coord_def updated_from_def
      get_updated_with_dmp_def dmp_find_def)

text \<open>
  C4 (fails on the code). \<open>compute_cctv\<close> returns \<open>None\<close> on every object; for the old
  text \<open>abefghijkl\<close> and the new text \<open>abcdefgkl\<close> this is not the list of triples
  (0,2,0), (2,5,2), (8,10,-1) of its docstring.
\<close>

theorem compute_cctv_worked_example:
  "compute_cctv self = None
   \<and> compute_cctv worked \<noteq> Some [(0, 2, 0), (2, 5, 2), (8, 10, - 1)]"
  by (simp add: compute_cctv_def)

text \<open>
  C5 (fails on the code). \<open>get_cctv_for_coord\<close> returns \<open>None\<close> at every coordinate,
  inside a triple or in a gap; for the same two texts this is not the pair (2, true) of
  its docstring at coordinate 3, nor the pair (1, false) at coordinate 7.
\<close>

theorem get_cctv_for_coord_worked_example:
  "get_cctv_for_coord self srcblcoord = None
   \<and> get_cctv_for_coord worked 3 \<noteq> Some (2, True)
   \<and> get_cctv_for_coord worked 7 \<noteq> Some (1, False)"
  by (simp add: get_cctv_for_coord_def)

end
